theory Spec2Isabelle
  imports Main "HOL-Library.Sublist" "HOL-Library.List_Lexorder" "HOL-Library.Char_ord"
begin

section \<open>Relationship vocabulary\<close>

text \<open>
  The server keeps two module-level constants: the set \<open>VALID_RELATIONSHIPS\<close> and the
  map \<open>RELATIONSHIP_DISTANCES\<close>. A JavaScript \<open>Set\<close> of strings is modelled by the list
  of its members (\<open>has\<close> is membership), a \<open>Map\<close> by the association list it is built
  from (\<open>get\<close> on a missing key is \<open>undefined\<close>, here \<open>None\<close>).
\<close>

definition VALID_RELATIONSHIPS :: "string list" where
  "VALID_RELATIONSHIPS =
     [''COMPLETE_100'', ''BEATEN'', ''SET_ASIDE_ENJOYED'', ''SET_ASIDE'', ''GOT_BORED'',
      ''WOULD_NOT_LIKE'']"

definition RELATIONSHIP_DISTANCES :: "(string \<times> int) list" where
  "RELATIONSHIP_DISTANCES =
     [(''COMPLETE_100'', 1), (''BEATEN'', 2), (''SET_ASIDE_ENJOYED'', 3), (''SET_ASIDE'', 5),
      (''GOT_BORED'', 8), (''WOULD_NOT_LIKE'', 13)]"

definition isValid :: "string \<Rightarrow> bool" where
  "isValid k = (k \<in> set VALID_RELATIONSHIPS)"

definition distanceOf :: "string \<Rightarrow> int option" where
  "distanceOf k = map_of RELATIONSHIP_DISTANCES k"

section \<open>Game identifiers\<close>

text \<open>
  \<open>gidFrom\<close> derives a game's identifier from its display name:
  \<^verbatim>\<open>raw.toLowerCase().replace(/\W+/g, '-').replace(/\W+$/, '')\<close>, prefixed by \<open>gid\<close> and,
  unless the converted text already starts with one, a hyphen.

  Strings are lists of characters. \<open>toLowerCase\<close> is modelled on the ASCII letters and the
  class \<open>\W\<close> is the complement of \<open>[A-Za-z0-9_]\<close>, so every character outside ASCII is a
  non-word character that lower-casing leaves alone. This is what JavaScript does on
  ASCII input; the two code points whose lower case contains an ASCII letter
  (U+0130 and U+212A) are outside the model.
\<close>

definition isWordChar :: "char \<Rightarrow> bool" where
  "isWordChar c =
     ((CHR ''a'' \<le> c \<and> c \<le> CHR ''z'') \<or> (CHR ''A'' \<le> c \<and> c \<le> CHR ''Z'') \<or>
      (CHR ''0'' \<le> c \<and> c \<le> CHR ''9'') \<or> c = CHR ''_'')"

definition toLowerCaseChar :: "char \<Rightarrow> char" where
  "toLowerCaseChar c =
     (if CHR ''A'' \<le> c \<and> c \<le> CHR ''Z'' then char_of (of_char c + (32::nat)) else c)"

definition toLowerCase :: "string \<Rightarrow> string" where
  "toLowerCase s = map toLowerCaseChar s"

text \<open>
  \<open>replace(/\W+/g, '-')\<close>: scanning from the left, a word character is copied; at a
  non-word character the greedy \<open>\W+\<close> takes the whole run, which becomes one hyphen, and
  the scan goes on behind the run.
\<close>

function replaceNonWordRuns :: "string \<Rightarrow> string" where
  "replaceNonWordRuns [] = []"
| "replaceNonWordRuns (c # cs) =
     (if isWordChar c then c # replaceNonWordRuns cs
      else CHR ''-'' # replaceNonWordRuns (dropWhile (\<lambda>x. \<not> isWordChar x) cs))"
  by pat_completeness auto
termination
  by (relation "measure length") (auto simp: less_Suc_eq_le length_dropWhile_le)

text \<open>
  \<open>replace(/\W+$/, '')\<close> has no \<open>g\<close> flag: the first position, from the left, at which
  \<open>\W+$\<close> matches is the one from which only non-word characters follow up to the end,
  and that suffix is removed.
\<close>

fun stripTrailingNonWord :: "string \<Rightarrow> string" where
  "stripTrailingNonWord [] = []"
| "stripTrailingNonWord (c # cs) =
     (if \<not> isWordChar c \<and> list_all (\<lambda>x. \<not> isWordChar x) cs then []
      else c # stripTrailingNonWord cs)"

definition startsWith :: "string \<Rightarrow> string \<Rightarrow> bool" where
  "startsWith s p = (take (length p) s = p)"

definition converted :: "string \<Rightarrow> string" where
  "converted raw = stripTrailingNonWord (replaceNonWordRuns (toLowerCase raw))"

definition gidFrom :: "string \<Rightarrow> string" where
  "gidFrom raw =
     ''gid'' @ (if startsWith (converted raw) ''-'' then [] else ''-'') @ converted raw"



section \<open>The graph store\<close>

text \<open>
  The server talks to a Neo4j database through Cypher queries. The store is modelled
  explicitly: nodes carry a label and the properties \<open>id\<close> and \<open>name\<close>, relationships
  carry their type and the property \<open>dist\<close>. A node's identity is its position in
  \<open>nodes\<close>, a relationship's identity its position in \<open>rels\<close>; two nodes may hold the same
  \<open>id\<close> property, since \<open>POST /games\<close> uses \<open>CREATE\<close>.
\<close>

datatype label = User | Game

record node =
  label :: label
  node_id :: string
  node_name :: string

record rel =
  src :: nat
  rtype :: string
  dist :: int
  dst :: nat

record graph =
  nodes :: "node list"
  rels :: "rel list"

definition hasLabel :: "graph \<Rightarrow> nat \<Rightarrow> label \<Rightarrow> bool" where
  "hasLabel G n l = (n < length (nodes G) \<and> label (nodes G ! n) = l)"

text \<open>The node pattern \<open>(x:L {id: $i})\<close>: every node with that label and that id.\<close>

definition matchNodes :: "graph \<Rightarrow> label \<Rightarrow> string \<Rightarrow> nat list" where
  "matchNodes G l i =
     filter (\<lambda>n. label (nodes G ! n) = l \<and> node_id (nodes G ! n) = i) [0..<length (nodes G)]"

text \<open>
  \<open>MERGE (u)-[:T {dist: $dist}]->(g)\<close> on bound nodes: if a relationship of that type with
  that property runs from \<open>u\<close> to \<open>g\<close> nothing is written, otherwise it is created.
\<close>

definition mergeRel :: "graph \<Rightarrow> nat \<Rightarrow> string \<Rightarrow> int \<Rightarrow> nat \<Rightarrow> graph" where
  "mergeRel G u t d g =
     (if \<lparr>src = u, rtype = t, dist = d, dst = g\<rparr> \<in> set (rels G) then G
      else G\<lparr>rels := rels G @ [\<lparr>src = u, rtype = t, dist = d, dst = g\<rparr>]\<rparr>)"

text \<open>The queries the handlers send with \<open>session.run\<close>.\<close>

datatype query =
    CreateGame string string
  | MergeRelationship string string string int
  | MatchGameUsers string

text \<open>
  \<open>MATCH (u:User {id: $userId}), (g:Game {id: $gameId}) MERGE (u)-[:T {dist: $dist}]->(g)\<close>
  merges once for every row of the match, the product of the two node patterns.
\<close>

definition mergeRows :: "graph \<Rightarrow> string \<Rightarrow> int \<Rightarrow> (nat \<times> nat) list \<Rightarrow> graph" where
  "mergeRows G t d rows = foldl (\<lambda>H (u, g). mergeRel H u t d g) G rows"

fun exec :: "query \<Rightarrow> graph \<Rightarrow> graph" where
  "exec (CreateGame i n) G = G\<lparr>nodes := nodes G @ [\<lparr>label = Game, node_id = i, node_name = n\<rparr>]\<rparr>"
| "exec (MergeRelationship userId gameId t d) G =
     mergeRows G t d (List.product (matchNodes G User userId) (matchNodes G Game gameId))"
| "exec (MatchGameUsers gameId) G = G"

text \<open>The session: the database and the queries sent to it so far.\<close>

record store =
  db :: graph
  issued :: "query list"

definition run :: "query \<Rightarrow> store \<Rightarrow> store" where
  "run q st = \<lparr>db = exec q (db st), issued = issued st @ [q]\<rparr>"

text \<open>Users are not created by this server; a user node enters the database from outside.\<close>

definition addUser :: "string \<Rightarrow> string \<Rightarrow> store \<Rightarrow> store" where
  "addUser i n st =
     st\<lparr>db := (db st)\<lparr>nodes := nodes (db st) @ [\<lparr>label = User, node_id = i, node_name = n\<rparr>]\<rparr>\<rparr>"

definition emptyStore :: store where
  "emptyStore = \<lparr>db = \<lparr>nodes = [], rels = []\<rparr>, issued = []\<rparr>"

section \<open>Request handlers\<close>

text \<open>
  A handler takes the session and the request parameters and returns the response with
  the session it leaves. The database is taken to answer every query; an exception raised
  inside a \<open>try\<close> block is the value \<open>Json500\<close>.
\<close>

datatype js_error = TypeError

datatype response =
    SendStatus nat
  | Json400 string
  | Json500 js_error
  | GameCreated string string
  | GameWithUsers "string \<times> string" "((string \<times> string) \<times> string) list"
  | Unhandled

fun statusOf :: "response \<Rightarrow> nat option" where
  "statusOf (SendStatus n) = Some n"
| "statusOf (Json400 m) = Some 400"
| "statusOf (Json500 e) = Some 500"
| "statusOf (GameCreated i n) = Some 200"
| "statusOf (GameWithUsers g us) = Some 200"
| "statusOf Unhandled = None"

text \<open>\<open>POST /games\<close>.\<close>

definition postGame :: "store \<Rightarrow> string \<Rightarrow> response \<times> store" where
  "postGame st name =
     (if name = [] then (Json400 ''Game name required'', st)
      else let i = gidFrom name in (GameCreated i name, run (CreateGame i name) st))"

text \<open>
  \<open>POST /users/:userid/games/:gameid/relationship\<close>, the edge upsert. The three guards
  answer 400 and return; only then is the distance looked up and the \<open>MERGE\<close> sent. The
  lookup cannot miss behind the validity guard; were it to, \<open>neo4j.int(undefined)\<close> would
  throw outside the \<open>try\<close> block.
\<close>

definition upsertEdge :: "store \<Rightarrow> string \<Rightarrow> string \<Rightarrow> string \<Rightarrow> response \<times> store" where
  "upsertEdge st userId gameId relationship =
     (if userId = [] then (Json400 ''Invalid userid'', st)
      else if gameId = [] then (Json400 ''Invalid gameid'', st)
      else if \<not> isValid relationship
        then (Json400 (''Invalid relationship: '' @ relationship), st)
      else case distanceOf relationship of
             None \<Rightarrow> (Unhandled, st)
           | Some d \<Rightarrow> (SendStatus 200, run (MergeRelationship userId gameId relationship d) st))"

text \<open>
  \<open>GET /games/:gameId\<close>. The query
  \<open>MATCH (n:Game {id: $gameId})<-[r]-(u:User) RETURN n AS game, u AS user, type(r) AS relationship\<close>
  yields one record for every relationship from a user node into a game node with that
  id. The handler maps the records to users and then reads \<open>result.records[0].get('game')\<close>:
  on an empty sequence \<open>records[0]\<close> is \<open>undefined\<close> and the call throws a \<open>TypeError\<close>,
  which the \<open>catch\<close> block answers with status 500.
\<close>

definition gameUsersRecords :: "graph \<Rightarrow> string \<Rightarrow> (node \<times> node \<times> string) list" where
  "gameUsersRecords G gameId =
     map (\<lambda>r. (nodes G ! dst r, nodes G ! src r, rtype r))
       (filter (\<lambda>r. hasLabel G (dst r) Game \<and> node_id (nodes G ! dst r) = gameId \<and>
                     hasLabel G (src r) User) (rels G))"

definition getGame :: "store \<Rightarrow> string \<Rightarrow> response \<times> store" where
  "getGame st gameId =
     (if gameId = [] then (Json400 ''GameId required'', st)
      else
        let st' = run (MatchGameUsers gameId) st;
            records = gameUsersRecords (db st) gameId;
            users = map (\<lambda>(n, u, t). ((node_id u, node_name u), t)) records
        in case records of
             [] \<Rightarrow> (Json500 TypeError, st')
           | (n, u, t) # rest \<Rightarrow> (GameWithUsers (node_id n, node_name n) users, st'))"







text \<open>
  Two stores for trying the handlers: one user and one game without a relationship, and
  the same with the user having beaten the game.
\<close>

definition exampleStore :: store where
  "exampleStore = snd (postGame (addUser ''u1'' ''Ann'' emptyStore) ''Mass Effect 3'')"

definition ratedStore :: store where
  "ratedStore = snd (upsertEdge exampleStore ''u1'' ''gid-mass-effect-3'' ''BEATEN'')"

section \<open>The recommendation query\<close>

text \<open>
  The recommendations endpoint exists in the source as a disabled draft, a single Cypher
  query:
  \<^verbatim>\<open>match (a:User {id: $userId})-[b]->(c:Game)<-[d]-(e:User)-[f]->(g:Game)\<close>
  \<^verbatim>\<open>where not (a)-[]->(g) and b.dist = d.dist\<close>
  \<^verbatim>\<open>with sum(b.dist + d.dist + f.dist) as dist, a, b, c, d, e, f, g\<close>
  \<^verbatim>\<open>return distinct min(dist) as mDist, g as rec, collect(c) as reason_games,\<close>
  \<^verbatim>\<open>  collect(type(b)) as reason_rel, collect(type(d)) as reason_rel_other ORDER BY mDist\<close>
  It is modelled clause by clause. A match binds the three relationships \<open>b\<close>, \<open>d\<close>, \<open>f\<close>
  (positions in \<open>rels\<close>; Cypher binds no relationship twice within one pattern) and with
  them the nodes \<open>a\<close>, \<open>c\<close>, \<open>e\<close>, \<open>g\<close>.
\<close>

record path =
  rel_b :: nat
  rel_d :: nat
  rel_f :: nat



definition node_e :: "graph \<Rightarrow> path \<Rightarrow> nat" where
  "node_e G p = src (rels G ! rel_d p)"























section \<open>Properties of the vocabulary\<close>

text \<open>
  C4. Each of the six relationship kinds is valid and has the distance of the table
  (1, 2, 3, 5, 8, 13); every other string is invalid, and has no distance. The test is
  case-sensitive.
\<close>

theorem vocabulary_table:
  "isValid ''COMPLETE_100'' \<and> distanceOf ''COMPLETE_100'' = Some 1 \<and>
   isValid ''BEATEN'' \<and> distanceOf ''BEATEN'' = Some 2 \<and>
   isValid ''SET_ASIDE_ENJOYED'' \<and> distanceOf ''SET_ASIDE_ENJOYED'' = Some 3 \<and>
   isValid ''SET_ASIDE'' \<and> distanceOf ''SET_ASIDE'' = Some 5 \<and>
   isValid ''GOT_BORED'' \<and> distanceOf ''GOT_BORED'' = Some 8 \<and>
   isValid ''WOULD_NOT_LIKE'' \<and> distanceOf ''WOULD_NOT_LIKE'' = Some 13 \<and>
   (k \<notin> {''COMPLETE_100'', ''BEATEN'', ''SET_ASIDE_ENJOYED'', ''SET_ASIDE'', ''GOT_BORED'',
          ''WOULD_NOT_LIKE''} \<longrightarrow> \<not> isValid k \<and> distanceOf k = None)"
  by (simp add: isValid_def distanceOf_def VALID_RELATIONSHIPS_def RELATIONSHIP_DISTANCES_def)

theorem vocabulary_table_witness:
  "\<not> isValid ''beaten'' \<and> \<not> isValid ''Complete_100'' \<and> distanceOf ''beaten'' = None"
  using vocabulary_table [of "''beaten''"] vocabulary_table [of "''Complete_100''"]
  by simp

section \<open>Properties of the identifier derivation\<close>

























section \<open>Properties of the edge upsert\<close>

lemma nodes_mergeRel: "nodes (mergeRel G u t d g) = nodes G"
  by (simp add: mergeRel_def)

lemma nodes_mergeRows: "nodes (mergeRows G t d ps) = nodes G"
  unfolding mergeRows_def
  by (induction ps arbitrary: G) (auto simp: nodes_mergeRel)

lemma mergeRows_Cons:
  "mergeRows G t d ((u, g) # ps) = mergeRows (mergeRel G u t d g) t d ps"
  by (simp add: mergeRows_def)

lemma mergeRows_Nil: "mergeRows G t d [] = G"
  by (simp add: mergeRows_def)

lemma set_rels_mergeRel:
  "set (rels (mergeRel G u t d g)) = insert \<lparr>src = u, rtype = t, dist = d, dst = g\<rparr> (set (rels G))"
  by (auto simp: mergeRel_def)

lemma set_rels_mergeRows:
  "set (rels (mergeRows G t d ps)) =
     set (rels G) \<union> (\<lambda>(u, g). \<lparr>src = u, rtype = t, dist = d, dst = g\<rparr>) ` set ps"
proof (induction ps arbitrary: G)
  case Nil
  show ?case by (simp add: mergeRows_Nil)
next
  case (Cons p ps)
  obtain u g where p: "p = (u, g)" by (cases p)
  show ?case
    unfolding p mergeRows_Cons Cons.IH set_rels_mergeRel by auto
qed

lemma mergeRows_present:
  "\<forall>(u, g) \<in> set ps. \<lparr>src = u, rtype = t, dist = d, dst = g\<rparr> \<in> set (rels G) \<Longrightarrow>
   mergeRows G t d ps = G"
proof (induction ps)
  case Nil
  show ?case by (simp add: mergeRows_Nil)
next
  case (Cons p ps)
  obtain u g where p: "p = (u, g)" by (cases p)
  with Cons.prems have "mergeRel G u t d g = G" by (simp add: mergeRel_def)
  with Cons p show ?case by (simp add: mergeRows_Cons)
qed

lemma mergeRows_idem: "mergeRows (mergeRows G t d ps) t d ps = mergeRows G t d ps"
  by (rule mergeRows_present) (auto simp: set_rels_mergeRows)

lemma matchNodes_cong: "nodes G' = nodes G \<Longrightarrow> matchNodes G' l i = matchNodes G l i"
  by (simp add: matchNodes_def)

lemma exec_merge_idem:
  "exec (MergeRelationship u g t d) (exec (MergeRelationship u g t d) G) =
   exec (MergeRelationship u g t d) G"
  by (simp add: matchNodes_cong [OF nodes_mergeRows] mergeRows_idem)



text \<open>
  C5. The edge upsert is idempotent: for every store, user id, game id and kind, a second
  call with the same arguments leaves the database as the first call left it, and gets
  the same answer.
\<close>

theorem upsertEdge_idempotent:
  "db (snd (upsertEdge (snd (upsertEdge st u g k)) u g k)) = db (snd (upsertEdge st u g k)) \<and>
   fst (upsertEdge (snd (upsertEdge st u g k)) u g k) = fst (upsertEdge st u g k)"
  by (auto simp: upsertEdge_def run_def exec_merge_idem simp del: exec.simps split: option.splits)

text \<open>
  C7. A kind outside the vocabulary is rejected with status 400 and the session is left as
  it was: the database is unchanged and no query has been sent. With a user id and a game
  id present, the answer is the message \<open>Invalid relationship: \<close> followed by the kind.
\<close>

theorem upsertEdge_invalid_kind:
  "\<not> isValid k \<Longrightarrow>
   snd (upsertEdge st u g k) = st \<and> statusOf (fst (upsertEdge st u g k)) = Some 400 \<and>
   (u \<noteq> [] \<and> g \<noteq> [] \<longrightarrow> fst (upsertEdge st u g k) = Json400 (''Invalid relationship: '' @ k))"
  by (simp add: upsertEdge_def)

theorem upsertEdge_invalid_kind_witness:
  "\<not> isValid ''LOVED'' \<and>
   upsertEdge exampleStore ''u1'' ''gid-mass-effect-3'' ''LOVED'' =
     (Json400 ''Invalid relationship: LOVED'', exampleStore)"
proof -
  have inv: "\<not> isValid ''LOVED''"
    by (simp add: isValid_def VALID_RELATIONSHIPS_def)
  from upsertEdge_invalid_kind [OF inv, of exampleStore "''u1''" "''gid-mass-effect-3''"]
  have "snd (upsertEdge exampleStore ''u1'' ''gid-mass-effect-3'' ''LOVED'') = exampleStore \<and>
        fst (upsertEdge exampleStore ''u1'' ''gid-mass-effect-3'' ''LOVED'') =
          Json400 ''Invalid relationship: LOVED''"
    by simp
  with inv show ?thesis by (simp add: prod_eq_iff)
qed
















section \<open>Properties of the game lookup\<close>

lemma gameUsersRecords_empty:
  "(gameUsersRecords G gameId = []) =
   (\<not> (\<exists>r \<in> set (rels G). hasLabel G (dst r) Game \<and> node_id (nodes G ! dst r) = gameId \<and>
          hasLabel G (src r) User))"
  by (auto simp: gameUsersRecords_def filter_empty_conv)

lemma gameUsersRecords_no_game:
  "matchNodes G Game gameId = [] \<Longrightarrow> gameUsersRecords G gameId = []"
  by (auto simp: gameUsersRecords_def matchNodes_def hasLabel_def filter_empty_conv)

text \<open>
  C10. When the query of \<open>GET /games/:gameId\<close> yields no record, the handler fails: with
  a game id present it answers 500, from the \<open>TypeError\<close> of reading \<open>records[0]\<close>. The
  query yields no record when no game node has the id, and exactly when no user has a
  relationship into a game node with it. A successful answer therefore lists at least one
  user. The database is not changed.
\<close>

theorem getGame_empty_records_fails:
  "(gameUsersRecords (db st) gameId = [] \<longrightarrow>
      fst (getGame st gameId) = (if gameId = [] then Json400 ''GameId required'' else Json500 TypeError)) \<and>
   (matchNodes (db st) Game gameId = [] \<longrightarrow> gameUsersRecords (db st) gameId = []) \<and>
   (\<forall>game users. fst (getGame st gameId) = GameWithUsers game users \<longrightarrow>
      users \<noteq> [] \<and> length users = length (gameUsersRecords (db st) gameId) \<and>
      (\<exists>r \<in> set (rels (db st)). hasLabel (db st) (dst r) Game \<and>
         node_id (nodes (db st) ! dst r) = gameId \<and> hasLabel (db st) (src r) User)) \<and>
   db (snd (getGame st gameId)) = db st"
proof -
  have a: "gameUsersRecords (db st) gameId = [] \<longrightarrow>
      fst (getGame st gameId) = (if gameId = [] then Json400 ''GameId required'' else Json500 TypeError)"
    by (simp add: getGame_def)
  have b: "matchNodes (db st) Game gameId = [] \<longrightarrow> gameUsersRecords (db st) gameId = []"
    by (simp add: gameUsersRecords_no_game)
  have c: "\<forall>game users. fst (getGame st gameId) = GameWithUsers game users \<longrightarrow>
      users \<noteq> [] \<and> length users = length (gameUsersRecords (db st) gameId) \<and>
      (\<exists>r \<in> set (rels (db st)). hasLabel (db st) (dst r) Game \<and>
         node_id (nodes (db st) ! dst r) = gameId \<and> hasLabel (db st) (src r) User)"
  proof (intro allI impI)
    fix game users
    assume ok: "fst (getGame st gameId) = GameWithUsers game users"
    then have ne: "gameUsersRecords (db st) gameId \<noteq> []"
      by (auto simp: getGame_def Let_def split: if_splits list.splits)
    from ok have "users = map (\<lambda>(n, u, t). ((node_id u, node_name u), t)) (gameUsersRecords (db st) gameId)"
      by (auto simp: getGame_def Let_def split: if_splits list.splits)
    with ne show "users \<noteq> [] \<and> length users = length (gameUsersRecords (db st) gameId) \<and>
      (\<exists>r \<in> set (rels (db st)). hasLabel (db st) (dst r) Game \<and>
         node_id (nodes (db st) ! dst r) = gameId \<and> hasLabel (db st) (src r) User)"
      using gameUsersRecords_empty [of "db st" gameId] by auto
  qed
  have d: "db (snd (getGame st gameId)) = db st"
    by (auto simp: getGame_def Let_def run_def split: list.splits)
  from a b c d show ?thesis by blast
qed

theorem getGame_empty_records_fails_witness:
  "gameUsersRecords (db exampleStore) ''gid-mass-effect-3'' = [] \<and>
   fst (getGame exampleStore ''gid-mass-effect-3'') = Json500 TypeError \<and>
   matchNodes (db exampleStore) Game ''gid-tetris'' = [] \<and>
   fst (getGame exampleStore ''gid-tetris'') = Json500 TypeError \<and>
   fst (getGame ratedStore ''gid-mass-effect-3'') =
     GameWithUsers (''gid-mass-effect-3'', ''Mass Effect 3'') [((''u1'', ''Ann''), ''BEATEN'')]"
proof -
  have e: "gameUsersRecords (db exampleStore) ''gid-mass-effect-3'' = []"
    by code_simp
  have n: "matchNodes (db exampleStore) Game ''gid-tetris'' = []"
    by code_simp
  have ok: "fst (getGame ratedStore ''gid-mass-effect-3'') =
     GameWithUsers (''gid-mass-effect-3'', ''Mass Effect 3'') [((''u1'', ''Ann''), ''BEATEN'')]"
    by code_simp
  from getGame_empty_records_fails [of exampleStore "''gid-mass-effect-3''"] e
  have f1: "fst (getGame exampleStore ''gid-mass-effect-3'') = Json500 TypeError"
    by simp
  from getGame_empty_records_fails [of exampleStore "''gid-tetris''"] n
  have f2: "fst (getGame exampleStore ''gid-tetris'') = Json500 TypeError"
    by simp
  from e n ok f1 f2 show ?thesis by simp
qed

section \<open>Properties of the recommendation query\<close>
























end
